theory Spec2Isabelle
  imports Complex_Main
begin

section \<open>The encoding state\<close>

text \<open>
  \<^verbatim>\<open>enum EncState\<close> of \<^verbatim>\<open>SMTPlan/Encoder.h\<close>: the syntactic context the visitor
  is producing constraints for.
\<close>

datatype EncState =
    ENC_NONE
  | ENC_INIT
  | ENC_GOAL
  | ENC_LITERAL
  | ENC_ACTION_CONDITION
  | ENC_ACTION_DURATION
  | ENC_ACTION_EFFECT

section \<open>Solver expressions\<close>

text \<open>
  A \<^verbatim>\<open>z3::expr\<close> is kept as a term. The tables of the encoder hold constants only; a
  constant is named by the role it plays, the entity it belongs to and the layer, which
  is the contract \<^verbatim>\<open>variable(role, entityId, layer)\<close> of the variable allocator. The
  sort of an expression (Bool or Real) is fixed by the table that holds it, so the
  two sorts are two types here.
\<close>

datatype role =
    literal_pre
  | literal_post
  | fluent_pre
  | fluent_post
  | action_start
  | action_end
  | action_running
  | action_duration
  | layer_time

datatype aexpr =
    AVar role nat nat
  | AConst real
  | APlus aexpr aexpr
  | AMinus aexpr aexpr
  | ATimes aexpr aexpr

datatype bexpr =
    BVar role nat nat
  | BConst bool
  | BNot bexpr
  | BAnd "bexpr list"
  | BOr "bexpr list"
  | BImplies bexpr bexpr
  | BEq bexpr bexpr
  | AEq aexpr aexpr
  | AGe aexpr aexpr

datatype expr = BoolExpr bexpr | RealExpr aexpr

text \<open>A model of the solver: a value for every constant of either sort.\<close>

record valuation =
  bool_value :: "role \<Rightarrow> nat \<Rightarrow> nat \<Rightarrow> bool"
  real_value :: "role \<Rightarrow> nat \<Rightarrow> nat \<Rightarrow> real"

fun aeval :: "valuation \<Rightarrow> aexpr \<Rightarrow> real" where
  "aeval v (AVar r e n) = real_value v r e n"
| "aeval v (AConst c) = c"
| "aeval v (APlus a b) = aeval v a + aeval v b"
| "aeval v (AMinus a b) = aeval v a - aeval v b"
| "aeval v (ATimes a b) = aeval v a * aeval v b"

fun beval :: "valuation \<Rightarrow> bexpr \<Rightarrow> bool" where
  "beval v (BVar r e n) = bool_value v r e n"
| "beval v (BConst b) = b"
| "beval v (BNot p) = (\<not> beval v p)"
| "beval v (BAnd ps) = list_all (beval v) ps"
| "beval v (BOr ps) = list_ex (beval v) ps"
| "beval v (BImplies p q) = (if beval v p then beval v q else True)"
| "beval v (BEq p q) = (beval v p = beval v q)"
| "beval v (AEq a b) = (aeval v a = aeval v b)"
| "beval v (AGe a b) = (aeval v b \<le> aeval v a)"

section \<open>The helpers \<^verbatim>\<open>mk_or\<close> and \<^verbatim>\<open>mk_and\<close>\<close>

datatype error = OutOfBounds

text \<open>
  \<^verbatim>\<open>for (unsigned i = 0; i < args.size(); i++) array.push_back(args[i]);\<close>
  The loop of both helpers, started at \<open>i = 0\<close> with the empty \<open>array\<close>.
\<close>

function copy_args :: "nat \<Rightarrow> 'a list \<Rightarrow> 'a list \<Rightarrow> 'a list" where
  "copy_args i args array =
     (if i < length args then copy_args (Suc i) args (array @ [args ! i]) else array)"
  by pat_completeness auto
termination
  by (relation "measure (\<lambda>(i, args, array). length args - i)") auto

declare copy_args.simps [simp del]

text \<open>
  \<^verbatim>\<open>&(array[i])\<close>: \<^verbatim>\<open>std::vector::operator[]\<close> is defined for \<open>i < size()\<close> only. The
  address is kept as the vector and the offset into it; an index outside the vector is
  the error \<open>OutOfBounds\<close>.
\<close>

definition elem_addr :: "'a list \<Rightarrow> nat \<Rightarrow> error + ('a list \<times> nat)" where
  "elem_addr array i = (if i < length array then Inr (array, i) else Inl OutOfBounds)"

text \<open>
  \<^verbatim>\<open>Z3_mk_or(ctx, num_args, args)\<close> and \<^verbatim>\<open>Z3_mk_and(ctx, num_args, args)\<close> read
  \<open>num_args\<close> elements from the address \<open>args\<close>.
\<close>

definition Z3_mk_or :: "nat \<Rightarrow> bexpr list \<times> nat \<Rightarrow> bexpr" where
  "Z3_mk_or num_args p = BOr (take num_args (drop (snd p) (fst p)))"

definition Z3_mk_and :: "nat \<Rightarrow> bexpr list \<times> nat \<Rightarrow> bexpr" where
  "Z3_mk_and num_args p = BAnd (take num_args (drop (snd p) (fst p)))"

definition mk_or :: "bexpr list \<Rightarrow> error + bexpr" where
  "mk_or args =
     (let array = copy_args 0 args []
      in case elem_addr array 0 of
           Inl e \<Rightarrow> Inl e
         | Inr p \<Rightarrow> Inr (Z3_mk_or (length array) p))"

definition mk_and :: "bexpr list \<Rightarrow> error + bexpr" where
  "mk_and args =
     (let array = copy_args 0 args []
      in case elem_addr array 0 of
           Inl e \<Rightarrow> Inl e
         | Inr p \<Rightarrow> Inr (Z3_mk_and (length array) p))"

section \<open>The encoder object\<close>

text \<open>
  Modelled from the spec: the planner-options configuration, whose declaration
  (\<^verbatim>\<open>SMTPlan/PlannerOptions.h\<close>) is not among the sources. The specification names a
  solver tactic name, a horizon increment and a numeric-theory selection.
\<close>

record PlannerOptions =
  solver_tactic_name :: string
  horizon_increment :: nat
  numeric_theory :: string

text \<open>
  The static counters of \<^verbatim>\<open>Inst::instantiatedOp\<close> that the constructor reads, passed
  explicitly.
\<close>

record instantiatedOp =
  howManyPNEs :: nat
  howManyLiterals :: nat
  howMany :: nat

text \<open>Pointers are addresses; the objects behind them are not read by the header.\<close>

type_synonym addr = nat

record z3_context =
  auto_config :: bool

record z3_tactic =
  tactic_ctx :: z3_context
  tactic_name :: string

record z3_solver =
  solver_ctx :: z3_context
  solver_tactic :: string
  assertions :: "bexpr list"

definition mk_solver :: "z3_tactic \<Rightarrow> z3_solver" where
  "mk_solver t = \<lparr>solver_ctx = tactic_ctx t, solver_tactic = tactic_name t, assertions = []\<rparr>"

text \<open>
  The fields of \<^verbatim>\<open>class Encoder\<close>, in the order of the header. A field that a
  constructor has not assigned holds no value (\<open>None\<close>); vectors, maps and strings are
  default-constructed empty.
\<close>

record Encoder =
  upper_bound :: "int option"
  next_layer :: int
  goal_expression :: "bexpr list"
  opt :: "PlannerOptions option"
  problem_info :: "addr option"
  fe :: "addr option"
  val_analysis :: "addr option"
  algebraist :: "addr option"
  enc_state :: "EncState option"
  enc_expression_h :: "int option"
  enc_expression_stack :: "expr list"
  enc_function_symbol :: string
  simpleStartAddEffects :: "nat list list"
  simpleStartDelEffects :: "nat list list"
  simpleEndAddEffects :: "nat list list"
  simpleEndDelEffects :: "nat list list"
  simpleStartAssignEffects :: "nat \<rightharpoonup> (nat \<times> aexpr) list"
  simpleEndAssignEffects :: "nat \<rightharpoonup> (nat \<times> aexpr) list"
  initialState :: "bool list"
  time_vars :: "aexpr list"
  duration_vars :: "aexpr list"
  pre_function_vars :: "aexpr list list"
  pos_function_vars :: "aexpr list list"
  pre_literal_vars :: "bexpr list list"
  pos_literal_vars :: "bexpr list list"
  sta_action_vars :: "bexpr list list"
  end_action_vars :: "bexpr list list"
  dur_action_vars :: "aexpr list list"
  run_action_vars :: "bexpr list list"
  z3_context :: z3_context
  z3_tactic :: z3_tactic
  z3_solver :: z3_solver

text \<open>
  \<^verbatim>\<open>Encoder(Algebraist * alg, VAL::analysis* analysis, PlannerOptions &options,
  ProblemInfo &pi)\<close>. \<open>std::vector<T>(n)\<close> holds \<open>n\<close> value-initialised elements: empty
  vectors, and \<open>false\<close> for \<open>bool\<close>.
\<close>

definition new_Encoder ::
  "addr \<Rightarrow> addr \<Rightarrow> PlannerOptions \<Rightarrow> addr \<Rightarrow> instantiatedOp \<Rightarrow> Encoder" where
  "new_Encoder alg analysis options pinfo inst =
     (let pneCount = howManyPNEs inst;
          litCount = howManyLiterals inst;
          actCount = howMany inst;
          ctx = \<lparr>auto_config = True\<rparr>;
          tac = \<lparr>tactic_ctx = ctx, tactic_name = ''qfnra-nlsat''\<rparr>
      in \<lparr>upper_bound = None,
          next_layer = 0,
          goal_expression = [],
          opt = None,
          problem_info = Some pinfo,
          fe = None,
          val_analysis = Some analysis,
          algebraist = Some alg,
          enc_state = None,
          enc_expression_h = None,
          enc_expression_stack = [],
          enc_function_symbol = [],
          simpleStartAddEffects = replicate litCount [],
          simpleStartDelEffects = replicate litCount [],
          simpleEndAddEffects = replicate litCount [],
          simpleEndDelEffects = replicate litCount [],
          simpleStartAssignEffects = Map.empty,
          simpleEndAssignEffects = Map.empty,
          initialState = replicate litCount False,
          time_vars = [],
          duration_vars = [],
          pre_function_vars = replicate pneCount [],
          pos_function_vars = replicate pneCount [],
          pre_literal_vars = replicate litCount [],
          pos_literal_vars = replicate litCount [],
          sta_action_vars = replicate actCount [],
          end_action_vars = replicate actCount [],
          dur_action_vars = replicate actCount [],
          run_action_vars = replicate actCount [],
          z3_context = ctx,
          z3_tactic = tac,
          z3_solver = mk_solver tac\<rparr>)"

section \<open>Properties of the helpers\<close>

lemma copy_args_append:
  "i \<le> length args \<Longrightarrow> copy_args i args array = array @ drop i args"
proof (induction i args array rule: copy_args.induct)
  case (1 i args array)
  show ?case
  proof (cases "i < length args")
    case True
    then have "copy_args i args array = copy_args (Suc i) args (array @ [args ! i])"
      by (subst copy_args.simps) simp
    also have "\<dots> = (array @ [args ! i]) @ drop (Suc i) args"
      using 1 True by simp
    also have "\<dots> = array @ drop i args"
      using True by (simp add: Cons_nth_drop_Suc)
    finally show ?thesis .
  next
    case False
    with 1 have "i = length args" by simp
    then show ?thesis by (subst copy_args.simps) simp
  qed
qed

lemma copy_args_all: "copy_args 0 args [] = args"
  using copy_args_append [of 0 args "[]"] by simp

lemma mk_or_nonempty: "args \<noteq> [] \<Longrightarrow> mk_or args = Inr (BOr args)"
  by (simp add: mk_or_def copy_args_all elem_addr_def Z3_mk_or_def)

lemma mk_and_nonempty: "args \<noteq> [] \<Longrightarrow> mk_and args = Inr (BAnd args)"
  by (simp add: mk_and_def copy_args_all elem_addr_def Z3_mk_and_def)

lemma mk_or_empty: "mk_or [] = Inl OutOfBounds"
  by (simp add: mk_or_def copy_args_all elem_addr_def)

lemma mk_and_empty: "mk_and [] = Inl OutOfBounds"
  by (simp add: mk_and_def copy_args_all elem_addr_def)

text \<open>
  Claim C10. For every non-empty argument vector \<open>mk_or\<close> and \<open>mk_and\<close> return the
  disjunction and the conjunction of exactly the given arguments, in their order; for
  the empty vector the index \<open>0\<close> of \<^verbatim>\<open>&(array[0])\<close> lies outside the copied vector,
  and both helpers end in the out-of-bounds access.
\<close>

theorem mk_or_mk_and_defined_iff_nonempty:
  "(args \<noteq> [] \<longrightarrow>
      mk_or args = Inr (BOr args) \<and> mk_and args = Inr (BAnd args) \<and>
      (\<forall>v. beval v (BOr args) = (\<exists>a \<in> set args. beval v a)) \<and>
      (\<forall>v. beval v (BAnd args) = (\<forall>a \<in> set args. beval v a))) \<and>
   mk_or [] = Inl OutOfBounds \<and> mk_and [] = Inl OutOfBounds"
  by (simp add: mk_or_nonempty mk_and_nonempty mk_or_empty mk_and_empty
      list_all_iff list_ex_iff)

theorem mk_or_mk_and_defined_iff_nonempty_witness:
  "[BVar action_start 0 0, BConst False] \<noteq> [] \<and>
   mk_or [BVar action_start 0 0, BConst False] =
     Inr (BOr [BVar action_start 0 0, BConst False]) \<and>
   mk_and [BVar action_start 0 0, BConst False] =
     Inr (BAnd [BVar action_start 0 0, BConst False])"
  using mk_or_mk_and_defined_iff_nonempty [of "[BVar action_start 0 0, BConst False]"]
  by simp

section \<open>The solver tactic\<close>

text \<open>
  Claim C8, as the constructor has it. Whatever options object is passed, the tactic
  of the constructed encoder is the built-in \<^verbatim>\<open>qfnra-nlsat\<close>, and the solver is made
  from that tactic.
\<close>

theorem Encoder_tactic_fixed:
  "tactic_name (z3_tactic (new_Encoder alg analysis options pinfo inst)) = ''qfnra-nlsat'' \<and>
   solver_tactic (z3_solver (new_Encoder alg analysis options pinfo inst)) = ''qfnra-nlsat''"
  by (simp add: new_Encoder_def mk_solver_def Let_def)

text \<open>
  The claim as stated fails for an options object that names the tactic \<^verbatim>\<open>smt\<close>: the
  constructed encoder does not use it.
\<close>

theorem Encoder_tactic_from_options_counterexample:
  "tactic_name (z3_tactic (new_Encoder 0 0
      \<lparr>solver_tactic_name = ''smt'', horizon_increment = 1, numeric_theory = ''reals''\<rparr> 0
      \<lparr>howManyPNEs = 0, howManyLiterals = 1, howMany = 1\<rparr>))
   \<noteq> solver_tactic_name
      \<lparr>solver_tactic_name = ''smt'', horizon_increment = 1, numeric_theory = ''reals''\<rparr>"
  by (simp add: new_Encoder_def Let_def)

end
